theory Spec2Isabelle
  imports Main
begin

section \<open>The layout compiler of the Glimmer runtime\<close>

text \<open>
  A shallow embedding of \<^verbatim>\<open>packages/@glimmer/runtime/lib/compiler.ts\<close>: the
  layout builder with its two strategies, the tag and attribute builders, and the
  compilation of a dynamic component invocation.
\<close>

subsection \<open>Opaque values\<close>

text \<open>
  Closures, helpers, environments, template metadata and block references are never
  inspected by the compiler; each is a handle, told apart by a number.
\<close>

datatype FunctionExpression = FunctionExpression nat
datatype Helper = Helper nat
datatype Environment = Environment nat
datatype TemplateMeta = TemplateMeta nat
datatype BlockRef = BlockRef nat

datatype Error = Error string | TypeError

subsection \<open>Wire format\<close>

text \<open>
  Only the expressions and statements that the compiler builds are spelled out; any
  other expression or statement of the wire format is \<open>WireExpression\<close> or
  \<open>WireStatement\<close>. An entry of a \<^verbatim>\<open>ComponentArgs\<close> array is an \<open>Arg\<close>.
\<close>

datatype Expression =
    ClientSide_FunctionExpression FunctionExpression
  | ClientSide_ResolvedHelper Helper "Arg option" "Arg option"
  | FixThisBeforeWeMerge "string list"
  | WireExpression nat
and Arg =
    Params "Expression list"
  | Hash "string list" "Expression list"
  | BlockArg BlockRef
  | Null

datatype Statement =
    Block "string list" "Expression list" "(string list \<times> Expression list) option"
      "SerializedInlineBlock option" "SerializedInlineBlock option"
  | ClientSide_OpenDynamicElement Expression
  | ClientSide_OpenComponentElement "string option"
  | Yield string "Expression list"
  | FlushElement
  | CloseElement
  | StaticAttr string string "string option"
  | DynamicAttr string Expression "string option"
  | WireStatement nat
and SerializedInlineBlock =
    SerializedInlineBlock "string list" "Statement list"

record SerializedTemplateBlock =
  statements :: "Statement list"
  named :: "string list"
  yields :: "string list"
  hasPartials :: bool
  prelude :: "Statement list option"
  head :: "Statement list option"

record WireTemplate =
  meta :: TemplateMeta
  block :: SerializedTemplateBlock

subsection \<open>ComponentTagBuilder\<close>

record ComponentTagBuilder =
  isDynamic :: "bool option"
  isStatic :: "bool option"
  staticTagName :: "string option"
  dynamicTagName :: "Expression option"

definition new_ComponentTagBuilder :: ComponentTagBuilder where
  "new_ComponentTagBuilder =
     \<lparr>isDynamic = None, isStatic = None, staticTagName = None, dynamicTagName = None\<rparr>"

text \<open>\<^verbatim>\<open>if (this.isDynamic)\<close>: \<^verbatim>\<open>null\<close> and \<^verbatim>\<open>false\<close> are falsy.\<close>

definition getDynamic :: "ComponentTagBuilder \<Rightarrow> Expression option" where
  "getDynamic t = (if isDynamic t = Some True then dynamicTagName t else None)"

definition getStatic :: "ComponentTagBuilder \<Rightarrow> string option" where
  "getStatic t = (if isStatic t = Some True then staticTagName t else None)"

definition ComponentTagBuilder_static :: "string \<Rightarrow> ComponentTagBuilder \<Rightarrow> ComponentTagBuilder" where
  "ComponentTagBuilder_static tagName t = t\<lparr>isStatic := Some True, staticTagName := Some tagName\<rparr>"

definition ComponentTagBuilder_dynamic ::
  "FunctionExpression \<Rightarrow> ComponentTagBuilder \<Rightarrow> ComponentTagBuilder" where
  "ComponentTagBuilder_dynamic tagName t =
     t\<lparr>isDynamic := Some True,
       dynamicTagName := Some (ClientSide_FunctionExpression tagName)\<rparr>"

text \<open>A sequence of calls on one tag builder, run in order.\<close>

datatype TagCall = CallStatic string | CallDynamic FunctionExpression

fun tag_call :: "TagCall \<Rightarrow> ComponentTagBuilder \<Rightarrow> ComponentTagBuilder" where
  "tag_call (CallStatic tagName) t = ComponentTagBuilder_static tagName t"
| "tag_call (CallDynamic tagName) t = ComponentTagBuilder_dynamic tagName t"

fun tag_calls :: "TagCall list \<Rightarrow> ComponentTagBuilder \<Rightarrow> ComponentTagBuilder" where
  "tag_calls [] t = t"
| "tag_calls (c # cs) t = tag_calls cs (tag_call c t)"

fun is_CallStatic :: "TagCall \<Rightarrow> bool" where
  "is_CallStatic (CallStatic tagName) = True"
| "is_CallStatic (CallDynamic tagName) = False"

fun is_CallDynamic :: "TagCall \<Rightarrow> bool" where
  "is_CallDynamic (CallStatic tagName) = False"
| "is_CallDynamic (CallDynamic tagName) = True"

subsection \<open>ComponentAttrsBuilder\<close>

record ComponentAttrsBuilder =
  buffer :: "Statement list"

definition new_ComponentAttrsBuilder :: ComponentAttrsBuilder where
  "new_ComponentAttrsBuilder = \<lparr>buffer = []\<rparr>"

definition ComponentAttrsBuilder_static ::
  "string \<Rightarrow> string \<Rightarrow> ComponentAttrsBuilder \<Rightarrow> ComponentAttrsBuilder" where
  "ComponentAttrsBuilder_static name val a = a\<lparr>buffer := buffer a @ [StaticAttr name val None]\<rparr>"

definition ComponentAttrsBuilder_dynamic ::
  "string \<Rightarrow> FunctionExpression \<Rightarrow> ComponentAttrsBuilder \<Rightarrow> ComponentAttrsBuilder" where
  "ComponentAttrsBuilder_dynamic name val a =
     a\<lparr>buffer := buffer a @ [DynamicAttr name (ClientSide_FunctionExpression val) None]\<rparr>"

subsection \<open>The scanner\<close>

text \<open>
  The scanner module is outside this file. Its functions are parameters of the
  compilers: \<open>layoutTable\<close> builds a symbol table, \<open>scanBlock\<close> scans a statement list,
  \<open>child_statements\<close> reads the \<^verbatim>\<open>statements\<close> of what \<open>scanBlock\<close> returned,
  \<open>RawTemplate\<close> is the constructor of that class, and \<open>scanLayout\<close> is
  \<^verbatim>\<open>new Scanner(block, meta, env).scanLayout()\<close>.
\<close>

record ('tab, 'child, 'stmts, 'prog) Scanner =
  layoutTable :: "TemplateMeta \<Rightarrow> string list \<Rightarrow> string list \<Rightarrow> bool \<Rightarrow> 'tab"
  scanBlock :: "Statement list \<Rightarrow> 'tab \<Rightarrow> Environment \<Rightarrow> 'child"
  child_statements :: "'child \<Rightarrow> 'stmts"
  RawTemplate :: "'stmts \<Rightarrow> 'tab \<Rightarrow> 'prog"
  scanLayout :: "SerializedTemplateBlock \<Rightarrow> TemplateMeta \<Rightarrow> Environment \<Rightarrow> 'prog"

subsection \<open>WrappedBuilder\<close>

record WrappedBuilder =
  tag :: ComponentTagBuilder
  attrs :: ComponentAttrsBuilder
  env :: Environment
  layout :: WireTemplate

definition new_WrappedBuilder :: "Environment \<Rightarrow> WireTemplate \<Rightarrow> WrappedBuilder" where
  "new_WrappedBuilder e l =
     \<lparr>tag = new_ComponentTagBuilder, attrs = new_ComponentAttrsBuilder, env = e, layout = l\<rparr>"

text \<open>
  The local \<^verbatim>\<open>statements\<close>: an array is truthy even when empty, \<^verbatim>\<open>null\<close> and
  \<^verbatim>\<open>undefined\<close> are not.
\<close>

definition WrappedBuilder_statements :: "SerializedTemplateBlock \<Rightarrow> Statement list" where
  "WrappedBuilder_statements b =
     (case (prelude b, head b) of
        (Some p, Some h) \<Rightarrow> p @ h @ statements b
      | _ \<Rightarrow> statements b)"

text \<open>The local \<^verbatim>\<open>element\<close> of the dynamic path.\<close>

definition WrappedBuilder_element ::
  "Expression \<Rightarrow> Statement list \<Rightarrow> Statement list \<Rightarrow> Statement list" where
  "WrappedBuilder_element dynamicTag buf stmts =
     [Block [''with''] [dynamicTag] None
        (Some (SerializedInlineBlock [''tag'']
           ([ClientSide_OpenDynamicElement (FixThisBeforeWeMerge [''tag'']),
             Yield ''%attrs%'' []]
            @ buf
            @ [FlushElement])))
        None]
     @ stmts
     @ [Block [''if''] [dynamicTag] None
          (Some (SerializedInlineBlock [] [CloseElement]))
          None]"

definition WrappedBuilder_compile ::
  "('tab, 'child, 'stmts, 'prog) Scanner \<Rightarrow> WrappedBuilder \<Rightarrow> 'prog" where
  "WrappedBuilder_compile sc w =
     (let b = block (layout w);
          stmts = WrappedBuilder_statements b
      in case getDynamic (tag w) of
           Some dynamicTag \<Rightarrow>
             let element = WrappedBuilder_element dynamicTag (buffer (attrs w)) stmts;
                 table = layoutTable sc (meta (layout w)) (named b) (yields b @ [''%attrs%''])
                           (hasPartials b);
                 child = scanBlock sc element table (env w)
             in RawTemplate sc (child_statements sc child) table
         | None \<Rightarrow>
             let staticTag = getStatic (tag w);
                 prelude' = [ClientSide_OpenComponentElement staticTag];
                 head' = buffer (attrs w)
             in scanLayout sc (b\<lparr>prelude := Some prelude', head := Some head'\<rparr>)
                  (meta (layout w)) (env w))"

subsection \<open>UnwrappedBuilder\<close>

record UnwrappedBuilder =
  attrs :: ComponentAttrsBuilder
  env :: Environment
  layout :: WireTemplate

definition new_UnwrappedBuilder :: "Environment \<Rightarrow> WireTemplate \<Rightarrow> UnwrappedBuilder" where
  "new_UnwrappedBuilder e l =
     \<lparr>UnwrappedBuilder.attrs = new_ComponentAttrsBuilder, UnwrappedBuilder.env = e,
      UnwrappedBuilder.layout = l\<rparr>"

definition UnwrappedBuilder_tag :: "UnwrappedBuilder \<Rightarrow> Error + ComponentTagBuilder" where
  "UnwrappedBuilder_tag u = Inl (Error ''BUG: Cannot call `tag` on an UnwrappedBuilder'')"

definition UnwrappedBuilder_compile ::
  "('tab, 'child, 'stmts, 'prog) Scanner \<Rightarrow> UnwrappedBuilder \<Rightarrow> 'prog" where
  "UnwrappedBuilder_compile sc u =
     (let b = block (UnwrappedBuilder.layout u);
          head' = (case head b of
                     Some h \<Rightarrow> buffer (UnwrappedBuilder.attrs u) @ h
                   | None \<Rightarrow> buffer (UnwrappedBuilder.attrs u))
      in scanLayout sc (b\<lparr>head := Some head'\<rparr>) (meta (UnwrappedBuilder.layout u))
           (UnwrappedBuilder.env u))"

subsection \<open>ComponentLayoutBuilder\<close>

datatype Inner = Wrapped WrappedBuilder | Unwrapped UnwrappedBuilder

text \<open>The field \<^verbatim>\<open>inner\<close> is \<^verbatim>\<open>undefined\<close> (\<open>None\<close>) until a layout is bound.\<close>

record ComponentLayoutBuilder =
  env :: Environment
  inner :: "Inner option"

definition new_ComponentLayoutBuilder :: "Environment \<Rightarrow> ComponentLayoutBuilder" where
  "new_ComponentLayoutBuilder e = \<lparr>ComponentLayoutBuilder.env = e, inner = None\<rparr>"

definition wrapLayout :: "WireTemplate \<Rightarrow> ComponentLayoutBuilder \<Rightarrow> ComponentLayoutBuilder" where
  "wrapLayout l b = b\<lparr>inner := Some (Wrapped (new_WrappedBuilder (ComponentLayoutBuilder.env b) l))\<rparr>"

definition fromLayout :: "WireTemplate \<Rightarrow> ComponentLayoutBuilder \<Rightarrow> ComponentLayoutBuilder" where
  "fromLayout l b =
     b\<lparr>inner := Some (Unwrapped (new_UnwrappedBuilder (ComponentLayoutBuilder.env b) l))\<rparr>"

text \<open>Reading a property of \<^verbatim>\<open>undefined\<close> throws a \<^verbatim>\<open>TypeError\<close>.\<close>

definition ComponentLayoutBuilder_compile ::
  "('tab, 'child, 'stmts, 'prog) Scanner \<Rightarrow> ComponentLayoutBuilder \<Rightarrow> Error + 'prog" where
  "ComponentLayoutBuilder_compile sc b =
     (case inner b of
        None \<Rightarrow> Inl TypeError
      | Some (Wrapped w) \<Rightarrow> Inr (WrappedBuilder_compile sc w)
      | Some (Unwrapped u) \<Rightarrow> Inr (UnwrappedBuilder_compile sc u))"

definition ComponentLayoutBuilder_tag :: "ComponentLayoutBuilder \<Rightarrow> Error + ComponentTagBuilder" where
  "ComponentLayoutBuilder_tag b =
     (case inner b of
        None \<Rightarrow> Inl TypeError
      | Some (Wrapped w) \<Rightarrow> Inr (tag w)
      | Some (Unwrapped u) \<Rightarrow> UnwrappedBuilder_tag u)"

definition ComponentLayoutBuilder_attrs :: "ComponentLayoutBuilder \<Rightarrow> Error + ComponentAttrsBuilder" where
  "ComponentLayoutBuilder_attrs b =
     (case inner b of
        None \<Rightarrow> Inl TypeError
      | Some (Wrapped w) \<Rightarrow> Inr (WrappedBuilder.attrs w)
      | Some (Unwrapped u) \<Rightarrow> Inr (UnwrappedBuilder.attrs u))"

text \<open>
  \<open>compileLayout\<close>: the compilable configures the builder (or throws), the builder
  compiles, and \<open>compileDynamic\<close>, a method of the program, links the result.
\<close>

definition compileLayout ::
  "('tab, 'child, 'stmts, 'prog) Scanner \<Rightarrow> ('prog \<Rightarrow> Environment \<Rightarrow> 'cdp) \<Rightarrow>
   (ComponentLayoutBuilder \<Rightarrow> Error + ComponentLayoutBuilder) \<Rightarrow> Environment \<Rightarrow> Error + 'cdp" where
  "compileLayout sc compileDynamic compilable e =
     (case compilable (new_ComponentLayoutBuilder e) of
        Inl err \<Rightarrow> Inl err
      | Inr builder \<Rightarrow>
          (case ComponentLayoutBuilder_compile sc builder of
             Inl err \<Rightarrow> Inl err
           | Inr program \<Rightarrow> Inr (compileDynamic program e)))"

subsection \<open>The opcode builder\<close>

text \<open>
  Modelled from the spec: the class \<^verbatim>\<open>OpcodeBuilderDSL\<close> and the functions
  \<^verbatim>\<open>expr\<close> and \<^verbatim>\<open>compileComponentArgs\<close> are outside this file. The builder is
  modelled as the record of what was asked of it: each call appends one step (a single
  opcode or an opcode group), \<^verbatim>\<open>local()\<close> hands out the next free local slot, and
  \<^verbatim>\<open>unit\<close> and \<^verbatim>\<open>labelled\<close> run their callback on the builder.
\<close>

datatype InvokeDynamicLayout = InvokeDynamicLayout "BlockRef option" "string list"

datatype Step =
    Expr Expression
  | SetLocal nat
  | GetLocal nat
  | Test string
  | JumpUnless string
  | PushDynamicComponentManager nat
  | SetComponentState nat
  | PushBlock "Arg option"
  | CompileComponentArgs "Arg option"
  | PushDynamicScope
  | PushComponentArgs nat nat "(string \<times> nat) list"
  | CreateComponent nat bool bool
  | RegisterComponentDestructor nat
  | BeginComponentTransaction
  | GetComponentSelf nat
  | GetComponentLayout nat
  | InvokeDynamic InvokeDynamicLayout
  | DidCreateElement nat
  | DidRenderLayout nat
  | PopScope
  | PopDynamicScope
  | CommitComponentTransaction

record OpcodeBuilder =
  locals :: nat
  steps :: "Step list"

definition emit :: "Step \<Rightarrow> OpcodeBuilder \<Rightarrow> OpcodeBuilder" where
  "emit s b = b\<lparr>steps := steps b @ [s]\<rparr>"

definition OpcodeBuilder_local :: "OpcodeBuilder \<Rightarrow> nat \<times> OpcodeBuilder" where
  "OpcodeBuilder_local b = (locals b, b\<lparr>locals := Suc (locals b)\<rparr>)"

definition OpcodeBuilder_unit ::
  "(OpcodeBuilder \<Rightarrow> (Error + unit) \<times> OpcodeBuilder) \<Rightarrow> OpcodeBuilder \<Rightarrow>
   (Error + unit) \<times> OpcodeBuilder" where
  "OpcodeBuilder_unit callback b = callback b"

definition OpcodeBuilder_labelled ::
  "(OpcodeBuilder \<Rightarrow> (Error + unit) \<times> OpcodeBuilder) \<Rightarrow> OpcodeBuilder \<Rightarrow>
   (Error + unit) \<times> OpcodeBuilder" where
  "OpcodeBuilder_labelled callback b = callback b"

text \<open>
  What \<^verbatim>\<open>compileComponentArgs\<close> returns. The function itself is a parameter of
  \<open>ComponentBuilder_dynamic\<close>: from the hash and the builder it is given, to this record.
\<close>

record CompiledComponentArgs =
  slots :: "(string \<times> nat) list"
  count :: nat
  names :: "string list"

text \<open>Reading an array past its end gives \<^verbatim>\<open>undefined\<close>.\<close>

definition js_index :: "'a list \<Rightarrow> nat \<Rightarrow> 'a option" where
  "js_index xs i = (if i < length xs then Some (xs ! i) else None)"

subsection \<open>ComponentBuilder\<close>

text \<open>
  The builder is a mutable object that the caller keeps when the callback throws, so
  the result is the outcome together with the builder as the call left it.
\<close>

definition ComponentBuilder_dynamic ::
  "(Arg option \<Rightarrow> OpcodeBuilder \<Rightarrow> CompiledComponentArgs) \<Rightarrow>
   Arg list option \<Rightarrow> Helper \<Rightarrow> Arg list \<Rightarrow> OpcodeBuilder \<Rightarrow>
   (Error + unit) \<times> OpcodeBuilder" where
  "ComponentBuilder_dynamic compileComponentArgs definitionArgs getDefinition args builder =
     OpcodeBuilder_unit (\<lambda>b.
       let hash = js_index args 1;
           block' = js_index args 2;
           inverse = js_index args 3
       in
       if definitionArgs = None \<or> length (the definitionArgs) = 0
       then (Inl (Error ''Dynamic syntax without an argument''), b)
       else
         let (definition', b) = OpcodeBuilder_local b;
             (state, b) = OpcodeBuilder_local b;
             b = emit (Expr (ClientSide_ResolvedHelper getDefinition
                         (js_index (the definitionArgs) 0)
                         (js_index (the definitionArgs) 1))) b;
             b = emit (SetLocal definition') b;
             b = emit (GetLocal definition') b;
             b = emit (Test ''simple'') b
         in OpcodeBuilder_labelled (\<lambda>b.
              let b = emit (JumpUnless ''END'') b;
                  b = emit (PushDynamicComponentManager definition') b;
                  b = emit (SetComponentState state) b;
                  b = emit (PushBlock block') b;
                  b = emit (PushBlock inverse) b;
                  compiled = compileComponentArgs hash b;
                  b = emit (CompileComponentArgs hash) b;
                  b = emit PushDynamicScope b;
                  b = emit (PushComponentArgs 0 (count compiled) (slots compiled)) b;
                  b = emit (CreateComponent state True False) b;
                  b = emit (RegisterComponentDestructor state) b;
                  b = emit BeginComponentTransaction b;
                  b = emit (GetComponentSelf state) b;
                  b = emit (GetComponentLayout state) b;
                  b = emit (InvokeDynamic (InvokeDynamicLayout None (names compiled))) b;
                  b = emit (DidCreateElement state) b;
                  b = emit (DidRenderLayout state) b;
                  b = emit PopScope b;
                  b = emit PopDynamicScope b;
                  b = emit CommitComponentTransaction b
              in (Inr (), b)) b) builder"

subsection \<open>Reading a statement list and a step sequence\<close>

text \<open>
  How often an expression stands where a statement evaluates it: as a parameter or a
  hash value of a block, as the operand of an element or attribute statement, as an
  argument of a yield; the statements inside a block are counted too.
\<close>

fun evaluations :: "Expression \<Rightarrow> Statement \<Rightarrow> nat"
and evaluations_inline :: "Expression \<Rightarrow> SerializedInlineBlock \<Rightarrow> nat" where
  "evaluations e (Block path params hash template inverse') =
     count_list params e
     + (case hash of None \<Rightarrow> 0 | Some (keys, vals) \<Rightarrow> count_list vals e)
     + (case template of None \<Rightarrow> 0 | Some t \<Rightarrow> evaluations_inline e t)
     + (case inverse' of None \<Rightarrow> 0 | Some t \<Rightarrow> evaluations_inline e t)"
| "evaluations e (ClientSide_OpenDynamicElement x) = (if x = e then 1 else 0)"
| "evaluations e (ClientSide_OpenComponentElement t) = 0"
| "evaluations e (Yield to args) = count_list args e"
| "evaluations e FlushElement = 0"
| "evaluations e CloseElement = 0"
| "evaluations e (StaticAttr name val ns) = 0"
| "evaluations e (DynamicAttr name x ns) = (if x = e then 1 else 0)"
| "evaluations e (WireStatement n) = 0"
| "evaluations_inline e (SerializedInlineBlock ls stmts) = sum_list (map (evaluations e) stmts)"

definition evaluations_in :: "Expression \<Rightarrow> Statement list \<Rightarrow> nat" where
  "evaluations_in e stmts = sum_list (map (evaluations e) stmts)"

text \<open>The steps a call added to the builder.\<close>

definition emitted :: "OpcodeBuilder \<Rightarrow> OpcodeBuilder \<Rightarrow> Step list" where
  "emitted before after = drop (length (steps before)) (steps after)"

text \<open>The index of the first occurrence.\<close>

fun position :: "'a \<Rightarrow> 'a list \<Rightarrow> nat option" where
  "position x [] = None"
| "position x (y # ys) = (if x = y then Some 0 else map_option Suc (position x ys))"

definition precedes :: "'a \<Rightarrow> 'a \<Rightarrow> 'a list \<Rightarrow> bool" where
  "precedes x y xs =
     (case (position x xs, position y xs) of
        (Some i, Some j) \<Rightarrow> i < j
      | _ \<Rightarrow> False)"

definition immediately_precedes :: "'a \<Rightarrow> 'a \<Rightarrow> 'a list \<Rightarrow> bool" where
  "immediately_precedes x y xs =
     (case (position x xs, position y xs) of
        (Some i, Some j) \<Rightarrow> Suc i = j
      | _ \<Rightarrow> False)"

section \<open>Properties\<close>

subsection \<open>Helper lemmas\<close>

lemma tag_call_isStatic:
  "isStatic (tag_call c t) = (if is_CallStatic c then Some True else isStatic t)"
  by (cases c) (simp_all add: ComponentTagBuilder_static_def ComponentTagBuilder_dynamic_def)

lemma tag_call_isDynamic:
  "isDynamic (tag_call c t) = (if is_CallDynamic c then Some True else isDynamic t)"
  by (cases c) (simp_all add: ComponentTagBuilder_static_def ComponentTagBuilder_dynamic_def)

lemma tag_calls_isStatic:
  "isStatic (tag_calls cs t) = (if list_ex is_CallStatic cs then Some True else isStatic t)"
  by (induction cs arbitrary: t) (simp_all add: tag_call_isStatic)

lemma tag_calls_isDynamic:
  "isDynamic (tag_calls cs t) = (if list_ex is_CallDynamic cs then Some True else isDynamic t)"
  by (induction cs arbitrary: t) (simp_all add: tag_call_isDynamic)

lemma evaluations_in_element:
  "evaluations_in t (WrappedBuilder_element t buf stmts) =
     2 + (if t = FixThisBeforeWeMerge [''tag''] then 1 else 0)
       + evaluations_in t buf + evaluations_in t stmts"
  by (simp add: WrappedBuilder_element_def evaluations_in_def)

lemma hd_element:
  "hd (WrappedBuilder_element t buf stmts) =
     Block [''with''] [t] None
       (Some (SerializedInlineBlock [''tag'']
          ([ClientSide_OpenDynamicElement (FixThisBeforeWeMerge [''tag'']), Yield ''%attrs%'' []]
           @ buf @ [FlushElement])))
       None"
  by (simp add: WrappedBuilder_element_def)

lemma last_element:
  "last (WrappedBuilder_element t buf stmts) =
     Block [''if''] [t] None (Some (SerializedInlineBlock [] [CloseElement])) None"
  by (simp add: WrappedBuilder_element_def)

lemma body_of_element: "butlast (tl (WrappedBuilder_element t buf stmts)) = stmts"
  by (simp add: WrappedBuilder_element_def butlast_append)

text \<open>The dynamic path of \<open>WrappedBuilder_compile\<close>, and the static one.\<close>

lemma WrappedBuilder_compile_dynamic:
  "getDynamic (tag w) = Some t \<Longrightarrow>
   WrappedBuilder_compile sc w =
     RawTemplate sc
       (child_statements sc
          (scanBlock sc
             (WrappedBuilder_element t (buffer (WrappedBuilder.attrs w))
                (WrappedBuilder_statements (block (WrappedBuilder.layout w))))
             (layoutTable sc (meta (WrappedBuilder.layout w))
                (named (block (WrappedBuilder.layout w)))
                (yields (block (WrappedBuilder.layout w)) @ [''%attrs%''])
                (hasPartials (block (WrappedBuilder.layout w))))
             (WrappedBuilder.env w)))
       (layoutTable sc (meta (WrappedBuilder.layout w))
          (named (block (WrappedBuilder.layout w)))
          (yields (block (WrappedBuilder.layout w)) @ [''%attrs%''])
          (hasPartials (block (WrappedBuilder.layout w))))"
  by (simp add: WrappedBuilder_compile_def Let_def)

lemma WrappedBuilder_compile_static:
  "getDynamic (tag w) = None \<Longrightarrow>
   WrappedBuilder_compile sc w =
     scanLayout sc
       ((block (WrappedBuilder.layout w))
          \<lparr>prelude := Some [ClientSide_OpenComponentElement (getStatic (tag w))],
           head := Some (buffer (WrappedBuilder.attrs w))\<rparr>)
       (meta (WrappedBuilder.layout w)) (WrappedBuilder.env w)"
  by (simp add: WrappedBuilder_compile_def Let_def)

text \<open>The unwrapped strategy puts the buffer in front of the template's head.\<close>

lemma UnwrappedBuilder_compile_head:
  "UnwrappedBuilder_compile sc u =
     scanLayout sc
       ((block (UnwrappedBuilder.layout u))
          \<lparr>head := Some (buffer (UnwrappedBuilder.attrs u)
                          @ (case head (block (UnwrappedBuilder.layout u)) of
                               None \<Rightarrow> [] | Some h \<Rightarrow> h))\<rparr>)
       (meta (UnwrappedBuilder.layout u)) (UnwrappedBuilder.env u)"
  by (simp add: UnwrappedBuilder_compile_def Let_def split: option.splits)

lemma js_index_Cons_0: "js_index (x # xs) 0 = Some x"
  by (simp add: js_index_def)

lemma js_index_Cons_Suc: "js_index (x # xs) (Suc n) = js_index xs n"
  by (simp add: js_index_def)

lemmas dynamic_defs =
  ComponentBuilder_dynamic_def OpcodeBuilder_unit_def OpcodeBuilder_labelled_def
  OpcodeBuilder_local_def emit_def Let_def

text \<open>The steps of a dynamic invocation that has a definition argument.\<close>

lemma dynamic_steps:
  "ComponentBuilder_dynamic cca (Some (d # ds)) g args b =
     (let pre =
            [Expr (ClientSide_ResolvedHelper g (Some d) (js_index ds 0)),
             SetLocal (locals b),
             GetLocal (locals b),
             Test ''simple'',
             JumpUnless ''END'',
             PushDynamicComponentManager (locals b),
             SetComponentState (Suc (locals b)),
             PushBlock (js_index args 2),
             PushBlock (js_index args 3)];
          c = cca (js_index args 1)
                (b\<lparr>locals := Suc (Suc (locals b)), steps := steps b @ pre\<rparr>)
      in (Inr (),
          b\<lparr>locals := Suc (Suc (locals b)),
            steps := steps b @ pre @
              [CompileComponentArgs (js_index args 1),
               PushDynamicScope,
               PushComponentArgs 0 (count c) (slots c),
               CreateComponent (Suc (locals b)) True False,
               RegisterComponentDestructor (Suc (locals b)),
               BeginComponentTransaction,
               GetComponentSelf (Suc (locals b)),
               GetComponentLayout (Suc (locals b)),
               InvokeDynamic (InvokeDynamicLayout None (names c)),
               DidCreateElement (Suc (locals b)),
               DidRenderLayout (Suc (locals b)),
               PopScope,
               PopDynamicScope,
               CommitComponentTransaction]\<rparr>))"
  by (simp add: dynamic_defs js_index_Cons_0 js_index_Cons_Suc)

subsection \<open>The tag descriptor\<close>

text \<open>
  C3, as stated, fails: after \<^verbatim>\<open>static('div')\<close> and then \<^verbatim>\<open>dynamic(f)\<close> on a
  new tag builder the static flag is still set, and so is the dynamic one.
\<close>

theorem tag_flags_counterexample:
  "isStatic (tag_calls [CallStatic ''div'', CallDynamic (FunctionExpression 0)]
              new_ComponentTagBuilder) = Some True
   \<and> isDynamic (tag_calls [CallStatic ''div'', CallDynamic (FunctionExpression 0)]
                 new_ComponentTagBuilder) = Some True"
  by (simp add: ComponentTagBuilder_static_def ComponentTagBuilder_dynamic_def
      new_ComponentTagBuilder_def)

text \<open>
  C3, amended: \<^verbatim>\<open>static(name)\<close> sets the static flag and records the name, and
  leaves the dynamic flag and expression as they were; \<^verbatim>\<open>dynamic(f)\<close> sets the
  dynamic flag and records the expression that wraps \<open>f\<close>, and leaves the static flag
  and name as they were. No call clears a flag: after a sequence of calls the static
  flag is set if the sequence has a \<^verbatim>\<open>static\<close> call and is otherwise what it was,
  and the same for the dynamic flag, so both are set once both were called.
\<close>

theorem tag_flags_only_set:
  "isStatic (ComponentTagBuilder_static n t) = Some True
   \<and> staticTagName (ComponentTagBuilder_static n t) = Some n
   \<and> isDynamic (ComponentTagBuilder_static n t) = isDynamic t
   \<and> dynamicTagName (ComponentTagBuilder_static n t) = dynamicTagName t
   \<and> isDynamic (ComponentTagBuilder_dynamic f t) = Some True
   \<and> dynamicTagName (ComponentTagBuilder_dynamic f t) = Some (ClientSide_FunctionExpression f)
   \<and> isStatic (ComponentTagBuilder_dynamic f t) = isStatic t
   \<and> staticTagName (ComponentTagBuilder_dynamic f t) = staticTagName t
   \<and> isStatic (tag_calls cs t) = (if list_ex is_CallStatic cs then Some True else isStatic t)
   \<and> isDynamic (tag_calls cs t) = (if list_ex is_CallDynamic cs then Some True else isDynamic t)"
  by (simp add: ComponentTagBuilder_static_def ComponentTagBuilder_dynamic_def
      tag_calls_isStatic tag_calls_isDynamic)

theorem tag_flags_only_set_witness:
  "isStatic (tag_calls [CallDynamic (FunctionExpression 1), CallStatic ''p'']
       new_ComponentTagBuilder) = Some True
   \<and> isDynamic (tag_calls [CallDynamic (FunctionExpression 1), CallStatic ''p'']
       new_ComponentTagBuilder) = Some True
   \<and> isDynamic (tag_calls [CallStatic ''p''] new_ComponentTagBuilder) = None"
  using tag_flags_only_set [of "''p''" new_ComponentTagBuilder "FunctionExpression 1"
      "[CallDynamic (FunctionExpression 1), CallStatic ''p'']"]
    tag_flags_only_set [of "''p''" new_ComponentTagBuilder "FunctionExpression 1"
      "[CallStatic ''p'']"]
  by (simp add: new_ComponentTagBuilder_def)

subsection \<open>The wrapped strategy with a dynamic tag\<close>

text \<open>
  C1, as stated, fails: with an empty buffer and an empty body the statement list of the
  dynamic path evaluates the tag expression twice, not once.
\<close>

theorem tag_evaluations_counterexample:
  "evaluations_in (ClientSide_FunctionExpression (FunctionExpression 0))
     (WrappedBuilder_element (ClientSide_FunctionExpression (FunctionExpression 0)) [] []) = 2"
  by (simp add: WrappedBuilder_element_def evaluations_in_def)

text \<open>
  C1, amended: for a wrapped builder with a dynamic tag \<open>t\<close>, the statement list handed to
  \<open>scanBlock\<close> opens with a \<^verbatim>\<open>with\<close> block whose one parameter is \<open>t\<close> (it guards the
  open sequence, the buffer and the flush) and closes with an \<^verbatim>\<open>if\<close> block whose one
  parameter is the same \<open>t\<close> (it guards the close). Each of the two guards evaluates \<open>t\<close>
  itself: the wrapper adds two evaluations of \<open>t\<close> to those of the buffer and the body
  (three when \<open>t\<close> is the very path that reads the local \<^verbatim>\<open>tag\<close>).
\<close>

theorem wrapped_dynamic_tag_evaluated_twice:
  assumes "getDynamic (tag w) = Some t"
  shows "WrappedBuilder_compile sc w =
     RawTemplate sc
       (child_statements sc
          (scanBlock sc
             (WrappedBuilder_element t (buffer (WrappedBuilder.attrs w))
                (WrappedBuilder_statements (block (WrappedBuilder.layout w))))
             (layoutTable sc (meta (WrappedBuilder.layout w))
                (named (block (WrappedBuilder.layout w)))
                (yields (block (WrappedBuilder.layout w)) @ [''%attrs%''])
                (hasPartials (block (WrappedBuilder.layout w))))
             (WrappedBuilder.env w)))
       (layoutTable sc (meta (WrappedBuilder.layout w))
          (named (block (WrappedBuilder.layout w)))
          (yields (block (WrappedBuilder.layout w)) @ [''%attrs%''])
          (hasPartials (block (WrappedBuilder.layout w))))
   \<and> hd (WrappedBuilder_element t buf stmts) =
       Block [''with''] [t] None
         (Some (SerializedInlineBlock [''tag'']
            ([ClientSide_OpenDynamicElement (FixThisBeforeWeMerge [''tag'']), Yield ''%attrs%'' []]
             @ buf @ [FlushElement])))
         None
   \<and> last (WrappedBuilder_element t buf stmts) =
       Block [''if''] [t] None (Some (SerializedInlineBlock [] [CloseElement])) None
   \<and> evaluations_in t (WrappedBuilder_element t buf stmts) =
       2 + (if t = FixThisBeforeWeMerge [''tag''] then 1 else 0)
         + evaluations_in t buf + evaluations_in t stmts"
  using WrappedBuilder_compile_dynamic [OF assms] hd_element last_element evaluations_in_element
  by simp

theorem wrapped_dynamic_tag_evaluated_twice_witness:
  "getDynamic (tag \<lparr>tag = ComponentTagBuilder_dynamic (FunctionExpression 0) new_ComponentTagBuilder,
        attrs = ComponentAttrsBuilder_static ''class'' ''x'' new_ComponentAttrsBuilder,
        env = Environment 0,
        layout = \<lparr>meta = TemplateMeta 0,
                  block = \<lparr>statements = [WireStatement 0], named = [], yields = [],
                           hasPartials = False, prelude = None, head = None\<rparr>\<rparr>\<rparr>)
     = Some (ClientSide_FunctionExpression (FunctionExpression 0))
   \<and> evaluations_in (ClientSide_FunctionExpression (FunctionExpression 0))
       (WrappedBuilder_element (ClientSide_FunctionExpression (FunctionExpression 0))
          [StaticAttr ''class'' ''x'' None] [WireStatement 0]) = 2"
proof -
  have h: "getDynamic (tag \<lparr>tag = ComponentTagBuilder_dynamic (FunctionExpression 0) new_ComponentTagBuilder,
        attrs = ComponentAttrsBuilder_static ''class'' ''x'' new_ComponentAttrsBuilder,
        env = Environment 0,
        layout = \<lparr>meta = TemplateMeta 0,
                  block = \<lparr>statements = [WireStatement 0], named = [], yields = [],
                           hasPartials = False, prelude = None, head = None\<rparr>\<rparr>\<rparr>)
     = Some (ClientSide_FunctionExpression (FunctionExpression 0))"
    by (simp add: getDynamic_def ComponentTagBuilder_dynamic_def new_ComponentTagBuilder_def)
  show ?thesis
    using h wrapped_dynamic_tag_evaluated_twice [OF h,
        where buf = "[StaticAttr ''class'' ''x'' None]" and stmts = "[WireStatement 0]",
        THEN conjunct2, THEN conjunct2, THEN conjunct2]
    by (simp add: evaluations_in_def)
qed

text \<open>
  C9: in the dynamic path the body between the two guards is the template's prelude, head
  and statements when prelude and head are both there, and the statements alone when
  either is missing.
\<close>

theorem wrapped_dynamic_prelude_head_both_or_neither:
  assumes "getDynamic (tag w) = Some t"
  shows "WrappedBuilder_compile sc w =
     RawTemplate sc
       (child_statements sc
          (scanBlock sc
             (WrappedBuilder_element t (buffer (WrappedBuilder.attrs w))
                (WrappedBuilder_statements (block (WrappedBuilder.layout w))))
             (layoutTable sc (meta (WrappedBuilder.layout w))
                (named (block (WrappedBuilder.layout w)))
                (yields (block (WrappedBuilder.layout w)) @ [''%attrs%''])
                (hasPartials (block (WrappedBuilder.layout w))))
             (WrappedBuilder.env w)))
       (layoutTable sc (meta (WrappedBuilder.layout w))
          (named (block (WrappedBuilder.layout w)))
          (yields (block (WrappedBuilder.layout w)) @ [''%attrs%''])
          (hasPartials (block (WrappedBuilder.layout w))))
   \<and> butlast (tl (WrappedBuilder_element t buf stmts)) = stmts
   \<and> WrappedBuilder_statements (b\<lparr>prelude := Some p, head := Some h\<rparr>) = p @ h @ statements b
   \<and> WrappedBuilder_statements (b\<lparr>prelude := Some p, head := None\<rparr>) = statements b
   \<and> WrappedBuilder_statements (b\<lparr>prelude := None, head := Some h\<rparr>) = statements b
   \<and> WrappedBuilder_statements (b\<lparr>prelude := None, head := None\<rparr>) = statements b"
  using WrappedBuilder_compile_dynamic [OF assms] body_of_element
  by (simp add: WrappedBuilder_statements_def)

theorem wrapped_dynamic_prelude_head_both_or_neither_witness:
  "getDynamic (tag \<lparr>tag = ComponentTagBuilder_dynamic (FunctionExpression 0) new_ComponentTagBuilder,
        attrs = new_ComponentAttrsBuilder,
        env = Environment 0,
        layout = \<lparr>meta = TemplateMeta 0,
                  block = \<lparr>statements = [WireStatement 0], named = [], yields = [],
                           hasPartials = False, prelude = None,
                           head = Some [WireStatement 1]\<rparr>\<rparr>\<rparr>)
     = Some (ClientSide_FunctionExpression (FunctionExpression 0))
   \<and> WrappedBuilder_statements
        \<lparr>statements = [WireStatement 0], named = [], yields = [],
         hasPartials = False, prelude = None, head = Some [WireStatement 1]\<rparr>
     = [WireStatement 0]
   \<and> WrappedBuilder_statements
        \<lparr>statements = [WireStatement 0], named = [], yields = [],
         hasPartials = False, prelude = Some [WireStatement 2], head = None\<rparr>
     = [WireStatement 0]
   \<and> WrappedBuilder_statements
        \<lparr>statements = [WireStatement 0], named = [], yields = [],
         hasPartials = False, prelude = Some [WireStatement 2], head = Some [WireStatement 1]\<rparr>
     = [WireStatement 2, WireStatement 1, WireStatement 0]"
proof -
  have h: "getDynamic (tag \<lparr>tag = ComponentTagBuilder_dynamic (FunctionExpression 0) new_ComponentTagBuilder,
        attrs = new_ComponentAttrsBuilder,
        env = Environment 0,
        layout = \<lparr>meta = TemplateMeta 0,
                  block = \<lparr>statements = [WireStatement 0], named = [], yields = [],
                           hasPartials = False, prelude = None,
                           head = Some [WireStatement 1]\<rparr>\<rparr>\<rparr>)
     = Some (ClientSide_FunctionExpression (FunctionExpression 0))"
    by (simp add: getDynamic_def ComponentTagBuilder_dynamic_def new_ComponentTagBuilder_def)
  show ?thesis
    using h wrapped_dynamic_prelude_head_both_or_neither [OF h,
        where b = "\<lparr>statements = [WireStatement 0], named = [], yields = [],
                     hasPartials = False, prelude = None, head = None\<rparr>"
          and p = "[WireStatement 2]" and h = "[WireStatement 1]",
        THEN conjunct2, THEN conjunct2]
    by simp
qed

subsection \<open>The attribute buffer and the template's head\<close>

text \<open>
  C2 at a wrapped builder with the static tag \<^verbatim>\<open>div\<close>, the buffer
  \<^verbatim>\<open>class="x"\<close> and a template whose head declares \<^verbatim>\<open>id="main"\<close>: the block
  handed to the scanner has the buffer alone as its head. The template's own head
  statement is replaced, not kept behind the buffer.
\<close>

theorem wrapped_static_replaces_template_head:
  "WrappedBuilder_compile sc
     \<lparr>tag = ComponentTagBuilder_static ''div'' new_ComponentTagBuilder,
      attrs = ComponentAttrsBuilder_static ''class'' ''x'' new_ComponentAttrsBuilder,
      env = Environment 0,
      layout = \<lparr>meta = TemplateMeta 0,
                block = \<lparr>statements = [WireStatement 0], named = [], yields = [],
                         hasPartials = False, prelude = Some [],
                         head = Some [StaticAttr ''id'' ''main'' None]\<rparr>\<rparr>\<rparr>
   = scanLayout sc
       \<lparr>statements = [WireStatement 0], named = [], yields = [], hasPartials = False,
        prelude = Some [ClientSide_OpenComponentElement (Some ''div'')],
        head = Some [StaticAttr ''class'' ''x'' None]\<rparr>
       (TemplateMeta 0) (Environment 0)"
  by (simp add: WrappedBuilder_compile_def Let_def getDynamic_def getStatic_def
      ComponentTagBuilder_static_def new_ComponentTagBuilder_def
      ComponentAttrsBuilder_static_def new_ComponentAttrsBuilder_def)

subsection \<open>The unwrapped strategy and the layout builder\<close>

text \<open>
  C6: reading \<^verbatim>\<open>tag\<close> of an unwrapped builder throws, whatever the builder holds, and
  so does reading \<^verbatim>\<open>tag\<close> of a layout builder whose strategy is the unwrapped one.
\<close>

theorem unwrapped_tag_throws:
  "UnwrappedBuilder_tag u = Inl (Error ''BUG: Cannot call `tag` on an UnwrappedBuilder'')
   \<and> ComponentLayoutBuilder_tag (b\<lparr>inner := Some (Unwrapped u)\<rparr>)
       = Inl (Error ''BUG: Cannot call `tag` on an UnwrappedBuilder'')
   \<and> ComponentLayoutBuilder_tag (fromLayout l b)
       = Inl (Error ''BUG: Cannot call `tag` on an UnwrappedBuilder'')"
  by (simp add: UnwrappedBuilder_tag_def ComponentLayoutBuilder_tag_def fromLayout_def)

text \<open>
  C7: \<^verbatim>\<open>compile()\<close> on a layout builder that was never bound throws and gives no
  program, also through \<open>compileLayout\<close> with a compilable that binds nothing; and a
  bind after a bind never fails: it leaves the builder as the later bind alone would,
  and \<^verbatim>\<open>compile()\<close> then runs the later strategy.
\<close>

theorem compile_unbound_throws_rebind_replaces:
  "ComponentLayoutBuilder_compile sc (new_ComponentLayoutBuilder e) = Inl TypeError
   \<and> compileLayout sc compileDynamic Inr e = Inl TypeError
   \<and> wrapLayout l2 (wrapLayout l1 b) = wrapLayout l2 b
   \<and> wrapLayout l2 (fromLayout l1 b) = wrapLayout l2 b
   \<and> fromLayout l2 (wrapLayout l1 b) = fromLayout l2 b
   \<and> fromLayout l2 (fromLayout l1 b) = fromLayout l2 b
   \<and> ComponentLayoutBuilder_compile sc (wrapLayout l2 (fromLayout l1 b))
       = Inr (WrappedBuilder_compile sc (new_WrappedBuilder (ComponentLayoutBuilder.env b) l2))
   \<and> ComponentLayoutBuilder_compile sc (fromLayout l2 (wrapLayout l1 b))
       = Inr (UnwrappedBuilder_compile sc
               (new_UnwrappedBuilder (ComponentLayoutBuilder.env b) l2))"
  by (simp add: ComponentLayoutBuilder_compile_def new_ComponentLayoutBuilder_def
      compileLayout_def wrapLayout_def fromLayout_def)

text \<open>
  C10: whatever strategy the builder held, \<^verbatim>\<open>wrapLayout\<close> leaves a wrapped builder
  with an unset tag and an empty buffer, and \<^verbatim>\<open>fromLayout\<close> an unwrapped builder with
  an empty buffer; nothing of the strategy held before is read.
\<close>

theorem bind_builds_fresh_strategy:
  "inner (wrapLayout l b) =
     Some (Wrapped \<lparr>tag = \<lparr>isDynamic = None, isStatic = None, staticTagName = None,
                           dynamicTagName = None\<rparr>,
                    attrs = \<lparr>buffer = []\<rparr>,
                    env = ComponentLayoutBuilder.env b, layout = l\<rparr>)
   \<and> inner (fromLayout l b) =
     Some (Unwrapped \<lparr>UnwrappedBuilder.attrs = \<lparr>buffer = []\<rparr>,
                      UnwrappedBuilder.env = ComponentLayoutBuilder.env b,
                      UnwrappedBuilder.layout = l\<rparr>)
   \<and> wrapLayout l (b\<lparr>inner := i\<rparr>) = wrapLayout l b
   \<and> fromLayout l (b\<lparr>inner := i\<rparr>) = fromLayout l b
   \<and> ComponentLayoutBuilder_tag (wrapLayout l b) = Inr new_ComponentTagBuilder
   \<and> ComponentLayoutBuilder_attrs (wrapLayout l b) = Inr new_ComponentAttrsBuilder
   \<and> ComponentLayoutBuilder_attrs (fromLayout l b) = Inr new_ComponentAttrsBuilder"
  by (simp add: wrapLayout_def fromLayout_def new_WrappedBuilder_def new_UnwrappedBuilder_def
      new_ComponentTagBuilder_def new_ComponentAttrsBuilder_def
      ComponentLayoutBuilder_tag_def ComponentLayoutBuilder_attrs_def)

subsection \<open>Dynamic component invocation\<close>

text \<open>
  C5: without definition arguments (\<^verbatim>\<open>null\<close>, or an empty array) the call throws
  and leaves the builder as it found it: no step was emitted.
\<close>

theorem dynamic_without_argument_throws:
  "ComponentBuilder_dynamic cca None g args b
     = (Inl (Error ''Dynamic syntax without an argument''), b)
   \<and> ComponentBuilder_dynamic cca (Some []) g args b
     = (Inl (Error ''Dynamic syntax without an argument''), b)
   \<and> emitted b (snd (ComponentBuilder_dynamic cca None g args b)) = []
   \<and> emitted b (snd (ComponentBuilder_dynamic cca (Some []) g args b)) = []"
  by (simp add: dynamic_defs emitted_def)

text \<open>
  C8: the resolution expression takes entries 0 and 1 of the definition arguments
  (entry 1 is \<^verbatim>\<open>undefined\<close> when there is one entry only), and the whole result is
  what it would be with the entries from index 2 on cut off.
\<close>

theorem dynamic_reads_two_definition_args:
  "ComponentBuilder_dynamic cca (Some (d # ds)) g args b
     = ComponentBuilder_dynamic cca (Some (take 2 (d # ds))) g args b
   \<and> hd (emitted b (snd (ComponentBuilder_dynamic cca (Some (d # ds)) g args b)))
     = Expr (ClientSide_ResolvedHelper g (Some d)
               (case ds of [] \<Rightarrow> None | d1 # rest \<Rightarrow> Some d1))
   \<and> ComponentBuilder_dynamic cca (Some (d0 # d1 # rest)) g args b
     = ComponentBuilder_dynamic cca (Some [d0, d1]) g args b"
  by (cases ds)
     (simp_all add: dynamic_defs emitted_def js_index_Cons_0 js_index_Cons_Suc,
      simp_all add: js_index_def)

text \<open>
  C4: a dynamic invocation with a definition argument succeeds, and among the steps it
  emits: the destructor is registered right after the component is created, before the
  transaction begins and before every other step that follows the creation; the commit
  is the last step and comes once, after the element-created and the layout-rendered
  signals; the scope is popped before the dynamic scope, and both before the commit.
\<close>

theorem dynamic_step_order:
  "let r = ComponentBuilder_dynamic cca (Some (d # ds)) g args b;
       em = emitted b (snd r);
       state = Suc (locals b)
   in fst r = Inr ()
    \<and> steps (snd r) = steps b @ em
    \<and> immediately_precedes (CreateComponent state True False)
         (RegisterComponentDestructor state) em
    \<and> precedes (RegisterComponentDestructor state) BeginComponentTransaction em
    \<and> (\<forall>s \<in> set em. precedes (CreateComponent state True False) s em \<longrightarrow>
          s = RegisterComponentDestructor state
          \<or> precedes (RegisterComponentDestructor state) s em)
    \<and> last em = CommitComponentTransaction
    \<and> count_list em CommitComponentTransaction = 1
    \<and> count_list em (CreateComponent state True False) = 1
    \<and> count_list em (RegisterComponentDestructor state) = 1
    \<and> precedes (DidCreateElement state) CommitComponentTransaction em
    \<and> precedes (DidRenderLayout state) CommitComponentTransaction em
    \<and> precedes PopScope PopDynamicScope em
    \<and> precedes PopDynamicScope CommitComponentTransaction em"
  by (simp add: dynamic_steps Let_def emitted_def precedes_def immediately_precedes_def)

theorem dynamic_step_order_witness:
  "BeginComponentTransaction \<in> set
     (emitted \<lparr>locals = 0, steps = []\<rparr>
        (snd (ComponentBuilder_dynamic (\<lambda>hash b. \<lparr>slots = [], count = 0, names = []\<rparr>)
                (Some [Params [WireExpression 0]]) (Helper 0)
                [Params [], Null, BlockArg (BlockRef 0), Null] \<lparr>locals = 0, steps = []\<rparr>)))
   \<and> precedes (CreateComponent 1 True False) BeginComponentTransaction
     (emitted \<lparr>locals = 0, steps = []\<rparr>
        (snd (ComponentBuilder_dynamic (\<lambda>hash b. \<lparr>slots = [], count = 0, names = []\<rparr>)
                (Some [Params [WireExpression 0]]) (Helper 0)
                [Params [], Null, BlockArg (BlockRef 0), Null] \<lparr>locals = 0, steps = []\<rparr>)))
   \<and> precedes (RegisterComponentDestructor 1) BeginComponentTransaction
     (emitted \<lparr>locals = 0, steps = []\<rparr>
        (snd (ComponentBuilder_dynamic (\<lambda>hash b. \<lparr>slots = [], count = 0, names = []\<rparr>)
                (Some [Params [WireExpression 0]]) (Helper 0)
                [Params [], Null, BlockArg (BlockRef 0), Null] \<lparr>locals = 0, steps = []\<rparr>)))"
proof -
  let ?em = "emitted \<lparr>locals = 0, steps = []\<rparr>
        (snd (ComponentBuilder_dynamic (\<lambda>hash b. \<lparr>slots = [], count = 0, names = []\<rparr>)
                (Some [Params [WireExpression 0]]) (Helper 0)
                [Params [], Null, BlockArg (BlockRef 0), Null] \<lparr>locals = 0, steps = []\<rparr>))"
  have mem: "BeginComponentTransaction \<in> set ?em"
    by (simp add: dynamic_steps Let_def emitted_def)
  have pre: "precedes (CreateComponent 1 True False) BeginComponentTransaction ?em"
    by (simp add: dynamic_steps Let_def emitted_def precedes_def)
  have "\<forall>s \<in> set ?em. precedes (CreateComponent 1 True False) s ?em \<longrightarrow>
          s = RegisterComponentDestructor 1 \<or> precedes (RegisterComponentDestructor 1) s ?em"
    using dynamic_step_order [of "\<lambda>hash b. \<lparr>slots = [], count = 0, names = []\<rparr>"
        "Params [WireExpression 0]" "[]" "Helper 0"
        "[Params [], Null, BlockArg (BlockRef 0), Null]" "\<lparr>locals = 0, steps = []\<rparr>"]
    by (simp add: Let_def)
  with mem pre show ?thesis by auto
qed

end
